theory Spec2Isabelle
  imports Main "HOL-Library.Sublist"
begin

section \<open>Python values shared by the modules\<close>

text \<open>
  Exceptions are values.  \<open>IndexError\<close> is what \<open>deque.popleft\<close> raises on an empty
  deque, \<open>ClientError\<close> stands for \<open>aiohttp.ClientError\<close>, \<open>ValueError\<close> is what
  \<open>urllib.parse\<close> raises on a malformed URL, \<open>KeyError\<close> and \<open>AttributeError\<close> are
  raised by a missing attribute of a tag and by a method call on \<open>None\<close>, and \<open>OtherError\<close>
  is any other subclass of \<open>Exception\<close>.
\<close>

datatype error = IndexError | KeyError | AttributeError | ClientError | ValueError | OtherError

text \<open>\<open>str.rstrip('/')\<close>: every trailing slash is removed, not only the last one.\<close>

definition rstrip_slash :: "string \<Rightarrow> string" where
  "rstrip_slash s = rev (dropWhile (\<lambda>c. c = CHR ''/'') (rev s))"

text \<open>\<open>p in s\<close> on strings: \<open>p\<close> occurs in \<open>s\<close> as a contiguous substring.\<close>

fun str_in :: "string \<Rightarrow> string \<Rightarrow> bool" where
  "str_in p [] = (p = [])"
| "str_in p (c # cs) = (prefix p (c # cs) \<or> str_in p cs)"

section \<open>url\_frontier.py\<close>

record url_frontier =
  queue :: "string list"
  seen_urls :: "string set"

definition new_frontier :: url_frontier where
  "new_frontier = \<lparr>queue = [], seen_urls = {}\<rparr>"

definition add :: "string \<Rightarrow> url_frontier \<Rightarrow> url_frontier" where
  "add url F =
     (let normalized_url = rstrip_slash url in
      if normalized_url \<notin> seen_urls F
      then F\<lparr>queue := queue F @ [normalized_url],
             seen_urls := insert normalized_url (seen_urls F)\<rparr>
      else F)"

text \<open>\<open>get\<close> pops from the left; on an empty deque Python raises \<open>IndexError\<close>.\<close>

definition get :: "url_frontier \<Rightarrow> error + (string \<times> url_frontier)" where
  "get F = (case queue F of
              [] \<Rightarrow> Inl IndexError
            | u # q \<Rightarrow> Inr (u, F\<lparr>queue := q\<rparr>))"

definition is_empty :: "url_frontier \<Rightarrow> bool" where
  "is_empty F = (length (queue F) = 0)"

definition size_frontier :: "url_frontier \<Rightarrow> nat" where
  "size_frontier F = length (queue F)"

text \<open>A sequence of \<open>add\<close> calls, in order, and \<open>n\<close> successive \<open>get\<close> calls collecting
  what they return; the first failing \<open>get\<close> aborts the sequence.\<close>

fun adds :: "string list \<Rightarrow> url_frontier \<Rightarrow> url_frontier" where
  "adds [] F = F"
| "adds (url # urls) F = adds urls (add url F)"

fun gets :: "nat \<Rightarrow> url_frontier \<Rightarrow> error + (string list \<times> url_frontier)" where
  "gets 0 F = Inr ([], F)"
| "gets (Suc n) F =
     (case get F of
        Inl e \<Rightarrow> Inl e
      | Inr (u, F') \<Rightarrow>
          (case gets n F' of
             Inl e \<Rightarrow> Inl e
           | Inr (us, F'') \<Rightarrow> Inr (u # us, F'')))"

section \<open>Library values: strings, regular expressions, documents\<close>

text \<open>
  A character is a code point below 256.  \<open>str.lower()\<close> maps the capitals \<open>A\<close> to \<open>Z\<close>
  and the accented capitals \<open>0xC0\<close> to \<open>0xDE\<close> (but not the sign \<open>0xD7\<close>) to their small
  letters, 32 code points further on, and keeps every other character.  The patterns
  used with \<open>re.I\<close> are made of ASCII letters, which below 256 match their two cases
  only, so such a search is a search in the lowered string.
\<close>

definition capitals :: "char list" where
  "capitals =
     ''ABCDEFGHIJKLMNOPQRSTUVWXYZ'' @
     [CHR 0xC0, CHR 0xC1, CHR 0xC2, CHR 0xC3, CHR 0xC4, CHR 0xC5, CHR 0xC6, CHR 0xC7, CHR 0xC8,
      CHR 0xC9, CHR 0xCA, CHR 0xCB, CHR 0xCC, CHR 0xCD, CHR 0xCE, CHR 0xCF, CHR 0xD0, CHR 0xD1,
      CHR 0xD2, CHR 0xD3, CHR 0xD4, CHR 0xD5, CHR 0xD6, CHR 0xD8, CHR 0xD9, CHR 0xDA, CHR 0xDB,
      CHR 0xDC, CHR 0xDD, CHR 0xDE]"

definition small_letters :: "char list" where
  "small_letters =
     ''abcdefghijklmnopqrstuvwxyz'' @
     [CHR 0xE0, CHR 0xE1, CHR 0xE2, CHR 0xE3, CHR 0xE4, CHR 0xE5, CHR 0xE6, CHR 0xE7, CHR 0xE8,
      CHR 0xE9, CHR 0xEA, CHR 0xEB, CHR 0xEC, CHR 0xED, CHR 0xEE, CHR 0xEF, CHR 0xF0, CHR 0xF1,
      CHR 0xF2, CHR 0xF3, CHR 0xF4, CHR 0xF5, CHR 0xF6, CHR 0xF8, CHR 0xF9, CHR 0xFA, CHR 0xFB,
      CHR 0xFC, CHR 0xFD, CHR 0xFE]"

definition lower_char :: "char \<Rightarrow> char" where
  "lower_char c =
     (case map_of (zip capitals small_letters) c of
        Some d \<Rightarrow> d
      | None \<Rightarrow> c)"

definition lower :: "string \<Rightarrow> string" where
  "lower s = map lower_char s"

text \<open>A string literal of the source that starts and ends with a double quote.\<close>

definition quoted :: "string \<Rightarrow> string" where
  "quoted s = [CHR 0x22] @ s @ [CHR 0x22]"

text \<open>\<open>str.startswith\<close>, \<open>str.endswith\<close> with a tuple, and \<open>str.lstrip('/')\<close>.\<close>

definition startswith :: "string \<Rightarrow> string \<Rightarrow> bool" where
  "startswith s p = prefix p s"

definition endswith_any :: "string \<Rightarrow> string list \<Rightarrow> bool" where
  "endswith_any s ps = list_ex (\<lambda>p. suffix p s) ps"

definition lstrip_slash :: "string \<Rightarrow> string" where
  "lstrip_slash s = dropWhile (\<lambda>c. c = CHR ''/'') s"

text \<open>
  The regular expressions of the \<open>re\<close> module that the program uses: literals, character
  classes, concatenation, alternation, repetition and the end anchor \<open>$\<close>.  Matching is by
  derivatives.  The flag passed to \<open>nullable\<close> and \<open>deriv\<close> says whether the current
  position is one where \<open>$\<close> matches: the end of the string, or just before a newline
  that ends the string.  \<open>re_search\<close> is \<open>re.search\<close> read as a truth value: some
  substring, starting anywhere, matches.
\<close>

datatype rx = Fail | Eps | Dollar | Lit char | OneOf "char list" | NoneOf "char list"
  | Cat rx rx | Alt rx rx | Star rx

fun nullable :: "bool \<Rightarrow> rx \<Rightarrow> bool" where
  "nullable e Fail = False"
| "nullable e Eps = True"
| "nullable e Dollar = e"
| "nullable e (Lit c) = False"
| "nullable e (OneOf cs) = False"
| "nullable e (NoneOf cs) = False"
| "nullable e (Cat r s) = (nullable e r \<and> nullable e s)"
| "nullable e (Alt r s) = (nullable e r \<or> nullable e s)"
| "nullable e (Star r) = True"

fun deriv :: "bool \<Rightarrow> char \<Rightarrow> rx \<Rightarrow> rx" where
  "deriv e c Fail = Fail"
| "deriv e c Eps = Fail"
| "deriv e c Dollar = Fail"
| "deriv e c (Lit d) = (if c = d then Eps else Fail)"
| "deriv e c (OneOf cs) = (if c \<in> set cs then Eps else Fail)"
| "deriv e c (NoneOf cs) = (if c \<notin> set cs then Eps else Fail)"
| "deriv e c (Cat r s) =
     (if nullable e r then Alt (Cat (deriv e c r) s) (deriv e c s) else Cat (deriv e c r) s)"
| "deriv e c (Alt r s) = Alt (deriv e c r) (deriv e c s)"
| "deriv e c (Star r) = Cat (deriv e c r) (Star r)"

definition at_end :: "string \<Rightarrow> bool" where
  "at_end s = (s = [] \<or> s = [CHR 0x0A])"

fun match_here :: "rx \<Rightarrow> string \<Rightarrow> bool" where
  "match_here r [] = nullable True r"
| "match_here r (c # cs) =
     (nullable (at_end (c # cs)) r \<or> match_here (deriv (at_end (c # cs)) c r) cs)"

fun re_search :: "rx \<Rightarrow> string \<Rightarrow> bool" where
  "re_search r [] = match_here r []"
| "re_search r (c # cs) = (match_here r (c # cs) \<or> re_search r cs)"

fun Str :: "string \<Rightarrow> rx" where
  "Str [] = Eps"
| "Str (c # cs) = Cat (Lit c) (Str cs)"

fun Seq :: "rx list \<Rightarrow> rx" where
  "Seq [] = Eps"
| "Seq (r # rs) = Cat r (Seq rs)"

definition Plus :: "rx \<Rightarrow> rx" where
  "Plus r = Cat r (Star r)"

text \<open>\<open>\d\<close>, \<open>\s\<close> and \<open>[a-zA-Z0-9-]\<close> on the code points below 256: the decimal digits
  there are \<open>0\<close> to \<open>9\<close>; the white space of a \<open>str\<close> pattern is the six ASCII characters,
  the separators \<open>0x1C\<close> to \<open>0x1F\<close>, the next-line character \<open>0x85\<close> and the no-break
  space \<open>0xA0\<close>.\<close>

definition digit :: rx where
  "digit = OneOf ''0123456789''"

definition space :: rx where
  "space =
     OneOf [CHR '' '', CHR 0x09, CHR 0x0A, CHR 0x0B, CHR 0x0C, CHR 0x0D,
            CHR 0x1C, CHR 0x1D, CHR 0x1E, CHR 0x1F, CHR 0x85, CHR 0xA0]"

definition alnum_dash :: rx where
  "alnum_dash =
     OneOf ''abcdefghijklmnopqrstuvwxyzABCDEFGHIJKLMNOPQRSTUVWXYZ0123456789-''"

text \<open>
  The document tree that \<open>BeautifulSoup(html, 'html.parser')\<close> returns: a tag has a name,
  attributes and contents; a content is a tag or a string.  An attribute value is one
  string; for \<open>class\<close> it is the class names joined by single spaces, which is the
  string bs4 also tries in a search after trying the class names one by one (every class
  filter of this program is a substring test without white space, so both agree).
\<close>

datatype tag = Tag (tag_name: string) (tag_attrs: "(string \<times> string) list")
    (tag_contents: "node list")
  and node = Child tag | NavigableString string

text \<open>All tags below a tag, in document order: what an unrestricted \<open>find_all\<close> visits.\<close>

fun descendants :: "tag \<Rightarrow> tag list"
  and descendants_node :: "node \<Rightarrow> tag list"
  and descendants_nodes :: "node list \<Rightarrow> tag list" where
  "descendants (Tag n a cs) = descendants_nodes cs"
| "descendants_node (Child t) = t # descendants t"
| "descendants_node (NavigableString s) = []"
| "descendants_nodes [] = []"
| "descendants_nodes (c # cs) = descendants_node c @ descendants_nodes cs"

definition find_all :: "(tag \<Rightarrow> bool) \<Rightarrow> tag \<Rightarrow> tag list" where
  "find_all p soup = filter p (descendants soup)"

text \<open>\<open>find\<close> returns the first match only, or \<open>None\<close>.\<close>

definition find_tag :: "(tag \<Rightarrow> bool) \<Rightarrow> tag \<Rightarrow> tag option" where
  "find_tag p soup = (case find_all p soup of [] \<Rightarrow> None | t # ts \<Rightarrow> Some t)"

text \<open>\<open>tag.get(key)\<close> and \<open>tag.string\<close>: the string of a tag is its only content if that is
  a string, the string of its only content if that is a tag, and \<open>None\<close> otherwise.\<close>

definition get_attr :: "tag \<Rightarrow> string \<Rightarrow> string option" where
  "get_attr t key = map_of (tag_attrs t) key"

fun tag_string :: "tag \<Rightarrow> string option"
  and node_string :: "node \<Rightarrow> string option" where
  "tag_string (Tag n a cs) = (case cs of [c] \<Rightarrow> node_string c | _ \<Rightarrow> None)"
| "node_string (NavigableString s) = Some s"
| "node_string (Child t) = tag_string t"

text \<open>The filters of the searches: a tag name out of a list, an attribute whose value
  satisfies a test (a missing attribute never does), and a test on the string of the tag.\<close>

definition named :: "string list \<Rightarrow> tag \<Rightarrow> bool" where
  "named names t = (tag_name t \<in> set names)"

definition attr_is :: "string \<Rightarrow> (string \<Rightarrow> bool) \<Rightarrow> tag \<Rightarrow> bool" where
  "attr_is key f t = (case get_attr t key of None \<Rightarrow> False | Some v \<Rightarrow> f v)"

definition string_is :: "(string \<Rightarrow> bool) \<Rightarrow> tag \<Rightarrow> bool" where
  "string_is f t = (case tag_string t of None \<Rightarrow> False | Some s \<Rightarrow> f s)"

text \<open>
  The functions of \<open>urllib.parse\<close> and the HTML parser are parameters of the model.
  \<open>urlparse\<close> and \<open>urljoin\<close> raise \<open>ValueError\<close> on some malformed URLs; \<open>parse_qs\<close>
  returns a dictionary, of which the program reads the keys only.
\<close>

record parse_result =
  scheme :: string
  netloc :: string
  query :: string
  fragment :: string

record lib =
  BeautifulSoup :: "string \<Rightarrow> error + tag"
  urlparse :: "string \<Rightarrow> error + parse_result"
  urljoin :: "string \<Rightarrow> string \<Rightarrow> error + string"
  parse_qs :: "string \<Rightarrow> string list"

section \<open>product\_identifier.py\<close>

text \<open>The three lists of \<open>ProductIdentifier.__init__\<close>.  The URL patterns have no
  metacharacter, so \<open>re.search\<close> with one of them is a substring test.\<close>

definition product_url_patterns :: "string list" where
  "product_url_patterns =
     [''/product/'', ''/p/'', ''/item/'', ''/products/'', ''/pd/'', ''/buy/'', ''/shop/'']"

definition product_query_params :: "string list" where
  "product_query_params =
     [''product'', ''productId'', ''pid'', ''itemId'', ''sku'', ''productCode'']"

definition product_indicators :: "string list" where
  "product_indicators =
     [''add to cart'', ''add to bag'', ''buy now'', ''product details'',
      ''product description'', ''specifications'', ''shipping'', ''size chart'']"

definition check_url_pattern :: "lib \<Rightarrow> string \<Rightarrow> error + bool" where
  "check_url_pattern L url =
     (if list_ex (\<lambda>pattern. str_in pattern url) product_url_patterns then Inr True
      else case urlparse L url of
             Inl e \<Rightarrow> Inl e
           | Inr parsed_url \<Rightarrow>
               (let query_params = parse_qs L (query parsed_url) in
                Inr (list_ex (\<lambda>param. param \<in> set query_params) product_query_params)))"

text \<open>The loop over the indicators: it returns at the second indicator found (the first
  component), and otherwise ends with the number of indicators found.\<close>

fun count_indicators :: "string list \<Rightarrow> string \<Rightarrow> nat \<Rightarrow> bool \<times> nat" where
  "count_indicators [] html_lower indicator_count = (False, indicator_count)"
| "count_indicators (indicator # rest) html_lower indicator_count =
     (if str_in indicator html_lower
      then (if indicator_count + 1 \<ge> 2 then (True, indicator_count + 1)
            else count_indicators rest html_lower (indicator_count + 1))
      else count_indicators rest html_lower indicator_count)"

definition check_page_content :: "string \<Rightarrow> tag \<Rightarrow> bool" where
  "check_page_content html soup =
     (let html_lower = lower html in
      case count_indicators product_indicators html_lower 0 of
        (True, indicator_count) \<Rightarrow> True
      | (False, indicator_count) \<Rightarrow>
          (let price_elements = find_all (\<lambda>t. named [''span'', ''div'', ''p''] t \<and>
                 attr_is ''class'' (\<lambda>v. list_ex (\<lambda>w. str_in w (lower v))
                   [''price'', ''cost'', ''mrp'', ''amount'']) t) soup in
           if price_elements \<noteq> [] \<and> indicator_count > 0 then True
           else
             (let qty_elements = find_all (\<lambda>t. named [''select'', ''input'', ''div''] t \<and>
                    attr_is ''class'' (\<lambda>v. list_ex (\<lambda>w. str_in w (lower v))
                      [''qty'', ''quantity'', ''size'', ''option'']) t) soup in
              if qty_elements \<noteq> [] \<and> indicator_count > 0 then True else False)))"

definition check_metadata :: "tag \<Rightarrow> bool" where
  "check_metadata soup =
     (let schema = find_tag (\<lambda>t. named [''script''] t \<and>
            attr_is ''type'' (\<lambda>v. v = ''application/ld+json'') t) soup in
      if (case schema of
            None \<Rightarrow> False
          | Some sc \<Rightarrow>
              (case tag_string sc of
                 None \<Rightarrow> False
               | Some s \<Rightarrow> s \<noteq> [] \<and> str_in (quoted ''@type'') s \<and>
                   (str_in (quoted ''Product'') s \<or> str_in (quoted ''product'') (lower s))))
      then True
      else
        (let og_type = find_tag (\<lambda>t. named [''meta''] t \<and>
               attr_is ''property'' (\<lambda>v. v = ''og:type'') t) soup in
         if (case og_type of
               None \<Rightarrow> False
             | Some m \<Rightarrow> get_attr m ''content'' = Some ''product'')
         then True
         else
           (let product_meta_tags = find_all (\<lambda>t. named [''meta''] t \<and>
                  attr_is ''property'' (\<lambda>v. str_in ''product:'' v \<or> str_in ''og:price'' v) t)
                  soup in
            if product_meta_tags \<noteq> [] then True else False)))"

definition is_product_page :: "lib \<Rightarrow> string \<Rightarrow> string \<Rightarrow> tag \<Rightarrow> error + bool" where
  "is_product_page L url html soup =
     (case check_url_pattern L url of
        Inl e \<Rightarrow> Inl e
      | Inr True \<Rightarrow> Inr True
      | Inr False \<Rightarrow>
          (if check_page_content html soup then Inr True
           else if check_metadata soup then Inr True
           else Inr False))"

section \<open>base\_crawler.py\<close>

text \<open>
  The class of a crawler object decides which overrides run.  The fields are those that
  \<open>Crawler.__init__\<close> sets; the classifier is stateless and the pattern lists of the
  subclasses are constants.
\<close>

datatype site = Generic | Virgio | Westside | Tatacliq | Nykaa

record crawler =
  site :: site
  domain :: string
  max_urls :: int
  concurrency :: int
  frontier :: url_frontier
  visited_urls :: "string set"
  product_urls :: "string set"

definition new_crawler :: "site \<Rightarrow> string \<Rightarrow> int \<Rightarrow> int \<Rightarrow> crawler" where
  "new_crawler cls root_url budget workers =
     \<lparr>site = cls, domain = root_url, max_urls = budget, concurrency = workers,
      frontier = new_frontier, visited_urls = {}, product_urls = {}\<rparr>"

text \<open>What the transport delivers for one request: \<open>session.get\<close> raises, or gives a
  response with a status whose \<open>text()\<close> raises or gives the markup.\<close>

record response =
  status :: int
  text_of :: "error + string"

type_synonym fetch = "error + response"

text \<open>\<open>Crawler.extract_links\<close>: the loop over the anchors with an \<open>href\<close>.\<close>

fun join_anchors :: "lib \<Rightarrow> string \<Rightarrow> tag list \<Rightarrow> error + string list" where
  "join_anchors L base_url [] = Inr []"
| "join_anchors L base_url (anchor # anchors) =
     (case get_attr anchor ''href'' of
        None \<Rightarrow> Inl KeyError
      | Some href \<Rightarrow>
          if href = [] \<or> startswith href ''javascript:'' then join_anchors L base_url anchors
          else
            (case urljoin L base_url href of
               Inl e \<Rightarrow> Inl e
             | Inr absolute_url \<Rightarrow>
                 (case join_anchors L base_url anchors of
                    Inl e \<Rightarrow> Inl e
                  | Inr links \<Rightarrow> Inr (absolute_url # links))))"

definition crawler_extract_links :: "lib \<Rightarrow> tag \<Rightarrow> string \<Rightarrow> error + string list" where
  "crawler_extract_links L soup base_url =
     join_anchors L base_url
       (find_all (\<lambda>t. named [''a''] t \<and> attr_is ''href'' (\<lambda>v. True) t) soup)"

definition crawler_should_crawl :: "lib \<Rightarrow> string \<Rightarrow> string \<Rightarrow> error + bool" where
  "crawler_should_crawl L self_domain url =
     (case urlparse L url of
        Inl e \<Rightarrow> Inl e
      | Inr parsed_url \<Rightarrow>
          (case urlparse L self_domain of
             Inl e \<Rightarrow> Inl e
           | Inr parsed_domain \<Rightarrow>
               if netloc parsed_url \<noteq> netloc parsed_domain then Inr False
               else if fragment parsed_url \<noteq> [] then Inr False
               else if endswith_any url
                   [''.css'', ''.js'', ''.jpg'', ''.jpeg'', ''.png'', ''.gif'', ''.svg'']
                 then Inr False
               else Inr True))"

text \<open>The loop \<open>for link in links: if self.should_crawl(link): self.frontier.add(link)\<close>.
  An exception of \<open>should_crawl\<close> leaves the loop with the links added so far.\<close>

fun enqueue_links ::
  "(string \<Rightarrow> error + bool) \<Rightarrow> string list \<Rightarrow> crawler \<Rightarrow> error option \<times> crawler" where
  "enqueue_links should [] c = (None, c)"
| "enqueue_links should (link # links) c =
     (case should link of
        Inl e \<Rightarrow> (Some e, c)
      | Inr b \<Rightarrow>
          enqueue_links should links
            (if b then c\<lparr>frontier := add link (frontier c)\<rparr> else c))"

text \<open>
  The body of the \<open>try\<close> of \<open>Crawler.process_url\<close>.  The result is the exception that left
  the body, if any, and the crawler as the body left it: what was written before an
  exception stays written.  \<open>self.extract_links\<close> and \<open>self.should_crawl\<close> are the methods
  of the object's class, passed as \<open>extract\<close> and \<open>should\<close>.
\<close>

definition crawler_process_url_try ::
  "lib \<Rightarrow> (tag \<Rightarrow> string \<Rightarrow> error + string list) \<Rightarrow> (string \<Rightarrow> error + bool) \<Rightarrow>
   fetch \<Rightarrow> string \<Rightarrow> crawler \<Rightarrow> error option \<times> crawler" where
  "crawler_process_url_try L extract should f url c =
     (case f of
        Inl e \<Rightarrow> (Some e, c)
      | Inr response \<Rightarrow>
          if status response \<noteq> 200 then (None, c)
          else
            (case text_of response of
               Inl e \<Rightarrow> (Some e, c)
             | Inr html \<Rightarrow>
                 (case BeautifulSoup L html of
                    Inl e \<Rightarrow> (Some e, c)
                  | Inr soup \<Rightarrow>
                      (case is_product_page L url html soup of
                         Inl e \<Rightarrow> (Some e, c)
                       | Inr b \<Rightarrow>
                           (let c1 = (if b then c\<lparr>product_urls := insert url (product_urls c)\<rparr>
                                      else c) in
                            case extract soup url of
                              Inl e \<Rightarrow> (Some e, c1)
                            | Inr links \<Rightarrow> enqueue_links should links c1)))))"

text \<open>Both \<open>except\<close> clauses log and fall through: the method returns \<open>None\<close>.\<close>

definition crawler_process_url ::
  "lib \<Rightarrow> (tag \<Rightarrow> string \<Rightarrow> error + string list) \<Rightarrow> (string \<Rightarrow> error + bool) \<Rightarrow>
   fetch \<Rightarrow> string \<Rightarrow> crawler \<Rightarrow> error option \<times> crawler" where
  "crawler_process_url L extract should f url c =
     (case crawler_process_url_try L extract should f url c of
        (None, c') \<Rightarrow> (None, c')
      | (Some ClientError, c') \<Rightarrow> (None, c')
      | (Some e, c') \<Rightarrow> (None, c'))"

section \<open>site\_specific/virgio\_crawler.py\<close>

definition virgio_process_url :: "lib \<Rightarrow> fetch \<Rightarrow> string \<Rightarrow> crawler \<Rightarrow> error option \<times> crawler" where
  "virgio_process_url L f url c =
     (case crawler_process_url L (crawler_extract_links L)
             (crawler_should_crawl L (domain c)) f url c of
        (Some e, c') \<Rightarrow> (Some e, c')
      | (None, c') \<Rightarrow>
          (None,
           if re_search (Alt (Str ''/collection/'') (Str ''/category/'')) url \<and>
              re_search (Seq [Str ''-p'', Plus digit, Dollar]) url
           then c'\<lparr>product_urls := insert url (product_urls c')\<rparr>
           else c'))"

section \<open>site\_specific/westside\_crawler.py\<close>

definition westside_product_patterns :: "rx list" where
  "westside_product_patterns =
     [Str ''/product/'',
      Seq [Lit CHR ''/'', Plus (NoneOf ''/''), Lit CHR ''/'', Plus (NoneOf ''/''),
           Lit CHR ''/'', Plus alnum_dash, Lit CHR ''-'', Plus digit, Str ''.html''],
      Seq [Lit CHR ''/'', Plus (NoneOf ''/''), Lit CHR ''/'', Plus (NoneOf ''/''),
           Lit CHR ''/'', Plus (NoneOf ''/''), Str ''?productid='']]"

definition westside_normalize_url :: "string \<Rightarrow> string \<Rightarrow> string \<Rightarrow> string" where
  "westside_normalize_url self_domain base_url href =
     (if startswith href ''//'' then ''https:'' @ href
      else if startswith href ''/'' then rstrip_slash self_domain @ href
      else if \<not> (startswith href ''http://'' \<or> startswith href ''https://'')
        then rstrip_slash self_domain @ ''/'' @ lstrip_slash href
      else href)"

definition westside_product_link :: "string \<Rightarrow> string \<Rightarrow> tag \<Rightarrow> string list" where
  "westside_product_link self_domain base_url product =
     (case find_tag (named [''a'']) product of
        None \<Rightarrow> []
      | Some link_tag \<Rightarrow>
          (case get_attr link_tag ''href'' of
             None \<Rightarrow> []
           | Some href0 \<Rightarrow>
               if href0 = [] then []
               else
                 (let href = (if href0 = ''#''
                              then (case get_attr link_tag ''data-product-url'' of
                                      None \<Rightarrow> [] | Some d \<Rightarrow> d)
                              else href0) in
                  if href \<noteq> [] then [westside_normalize_url self_domain base_url href]
                  else [])))"

definition westside_extract_links ::
  "lib \<Rightarrow> string \<Rightarrow> tag \<Rightarrow> string \<Rightarrow> error + string list" where
  "westside_extract_links L self_domain soup base_url =
     (case crawler_extract_links L soup base_url of
        Inl e \<Rightarrow> Inl e
      | Inr links \<Rightarrow>
          (let product_elements = find_all (\<lambda>t. named [''div''] t \<and>
                 attr_is ''class'' (\<lambda>c. c \<noteq> [] \<and>
                   (str_in ''product-item'' c \<or> str_in ''product-tile'' c)) t) soup in
           Inr (links @ concat (map (westside_product_link self_domain base_url)
                                  product_elements))))"

definition westside_should_crawl :: "lib \<Rightarrow> string \<Rightarrow> string \<Rightarrow> error + bool" where
  "westside_should_crawl L self_domain url =
     (case crawler_should_crawl L self_domain url of
        Inl e \<Rightarrow> Inl e
      | Inr False \<Rightarrow> Inr False
      | Inr True \<Rightarrow>
          if list_ex (\<lambda>path. str_in path url)
               [''/login'', ''/register'', ''/wishlist'', ''/checkout'', ''/search'', ''/cart'',
                ''/customer'', ''/store-locator'']
          then Inr False
          else Inr True)"

definition westside_process_url :: "lib \<Rightarrow> fetch \<Rightarrow> string \<Rightarrow> crawler \<Rightarrow> error option \<times> crawler" where
  "westside_process_url L f url c =
     (case crawler_process_url L (westside_extract_links L (domain c))
             (westside_should_crawl L (domain c)) f url c of
        (Some e, c') \<Rightarrow> (Some e, c')
      | (None, c') \<Rightarrow>
          (None,
           if list_ex (\<lambda>pattern. re_search pattern url) westside_product_patterns
           then c'\<lparr>product_urls := insert url (product_urls c')\<rparr>
           else c'))"

section \<open>site\_specific/tatacliq\_crawler.py\<close>

definition tatacliq_product_patterns :: "rx list" where
  "tatacliq_product_patterns =
     [Seq [Str ''/p-'', Plus digit],
      Str ''pdp/'',
      Seq [Str ''-p-'', Plus digit],
      Str ''/product-details/'']"

definition tatacliq_check_product_metadata :: "tag \<Rightarrow> bool" where
  "tatacliq_check_product_metadata soup =
     (let product_meta = find_tag (\<lambda>t. named [''meta''] t \<and>
            attr_is ''property'' (\<lambda>v. v = ''og:type'') t \<and>
            attr_is ''content'' (\<lambda>v. v = ''product'') t) soup in
      if product_meta \<noteq> None then True
      else
        (let price_elements = find_all (\<lambda>t. named [''span'', ''div''] t \<and>
               attr_is ''class'' (\<lambda>c. c \<noteq> [] \<and> str_in ''price'' (lower c)) t) soup in
         if length price_elements > 1 then True
         else
           (let cart_buttons = find_all (\<lambda>t. named [''button'', ''a''] t \<and>
                  string_is (\<lambda>s. s \<noteq> [] \<and> str_in ''add to'' (lower s)) t) soup in
            if cart_buttons \<noteq> [] then True else False)))"

definition script_patterns :: "rx list" where
  "script_patterns =
     [Seq [Str (quoted ''productId''), Star space, Lit CHR '':'', Star space, Lit CHR 0x22,
           Plus (NoneOf [CHR 0x22])],
      Seq [Str (quoted ''product''), Star space, Lit CHR '':'', Star space, Lit CHR ''{''],
      Str ''productDetails'',
      Str ''pdpPageData'']"

definition tatacliq_check_product_scripts :: "string \<Rightarrow> bool" where
  "tatacliq_check_product_scripts html =
     list_ex (\<lambda>pattern. re_search pattern html) script_patterns"

definition tatacliq_normalize_url :: "string \<Rightarrow> string \<Rightarrow> string \<Rightarrow> string" where
  "tatacliq_normalize_url self_domain base_url href =
     (if startswith href ''//'' then ''https:'' @ href
      else if startswith href ''/'' then rstrip_slash self_domain @ href
      else if \<not> startswith href ''http''
        then rstrip_slash self_domain @ ''/'' @ lstrip_slash href
      else href)"

definition tatacliq_card_link :: "string \<Rightarrow> string \<Rightarrow> tag \<Rightarrow> string list" where
  "tatacliq_card_link self_domain base_url product_card =
     (let link0 = get_attr product_card ''href'';
          link = (if (link0 = None \<or> link0 = Some []) \<and> tag_name product_card = ''div''
                  then (case find_tag (named [''a'']) product_card of
                          None \<Rightarrow> link0
                        | Some link_tag \<Rightarrow> get_attr link_tag ''href'')
                  else link0) in
      case link of
        None \<Rightarrow> []
      | Some l \<Rightarrow> if l \<noteq> [] then [tatacliq_normalize_url self_domain base_url l] else [])"

definition tatacliq_extract_links ::
  "lib \<Rightarrow> string \<Rightarrow> tag \<Rightarrow> string \<Rightarrow> error + string list" where
  "tatacliq_extract_links L self_domain soup base_url =
     (case crawler_extract_links L soup base_url of
        Inl e \<Rightarrow> Inl e
      | Inr links \<Rightarrow>
          (let product_cards = find_all (\<lambda>t. named [''div'', ''a''] t \<and>
                 attr_is ''class'' (\<lambda>c. c \<noteq> [] \<and> str_in ''product'' (lower c)) t) soup in
           Inr (links @ concat (map (tatacliq_card_link self_domain base_url) product_cards))))"

definition tatacliq_should_crawl :: "lib \<Rightarrow> string \<Rightarrow> string \<Rightarrow> error + bool" where
  "tatacliq_should_crawl L self_domain url =
     (case crawler_should_crawl L self_domain url of
        Inl e \<Rightarrow> Inl e
      | Inr False \<Rightarrow> Inr False
      | Inr True \<Rightarrow>
          if list_ex (\<lambda>path. str_in path url)
               [''/login'', ''/register'', ''/wishlist'', ''/cart'', ''/checkout'', ''/account'',
                ''/help'', ''/policy'', ''/about'', ''/terms'', ''/logout'',
                ''/customer-service'']
          then Inr False
          else Inr True)"

text \<open>\<open>TatacliqCrawler.process_url\<close> does not call the method of the base class: it
  fetches and parses itself and runs its own three checks.\<close>

definition tatacliq_process_url_try ::
  "lib \<Rightarrow> fetch \<Rightarrow> string \<Rightarrow> crawler \<Rightarrow> error option \<times> crawler" where
  "tatacliq_process_url_try L f url c =
     (case f of
        Inl e \<Rightarrow> (Some e, c)
      | Inr response \<Rightarrow>
          if status response \<noteq> 200 then (None, c)
          else
            (case text_of response of
               Inl e \<Rightarrow> (Some e, c)
             | Inr html \<Rightarrow>
                 (case BeautifulSoup L html of
                    Inl e \<Rightarrow> (Some e, c)
                  | Inr soup \<Rightarrow>
                      (let c1 = (if list_ex (\<lambda>pattern. re_search pattern url)
                                      tatacliq_product_patterns
                                 then c\<lparr>product_urls := insert url (product_urls c)\<rparr> else c);
                           c2 = (if tatacliq_check_product_metadata soup
                                 then c1\<lparr>product_urls := insert url (product_urls c1)\<rparr> else c1);
                           c3 = (if tatacliq_check_product_scripts html
                                 then c2\<lparr>product_urls := insert url (product_urls c2)\<rparr> else c2)
                       in
                       case tatacliq_extract_links L (domain c3) soup url of
                         Inl e \<Rightarrow> (Some e, c3)
                       | Inr links \<Rightarrow>
                           enqueue_links (tatacliq_should_crawl L (domain c3)) links c3))))"

definition tatacliq_process_url ::
  "lib \<Rightarrow> fetch \<Rightarrow> string \<Rightarrow> crawler \<Rightarrow> error option \<times> crawler" where
  "tatacliq_process_url L f url c =
     (case tatacliq_process_url_try L f url c of
        (None, c') \<Rightarrow> (None, c')
      | (Some e, c') \<Rightarrow> (None, c'))"

section \<open>site\_specific/nykaa\_crawler.py\<close>

definition nykaa_product_patterns :: "rx list" where
  "nykaa_product_patterns =
     [Str ''/prod/'',
      Str ''/products/'',
      Str ''productId='',
      Seq [Str ''/p/'', Plus digit],
      Seq [Str ''/fashion/'', Plus (NoneOf ''/''), Str ''/p/''],
      Seq [Str ''-p'', Plus digit, Dollar]]"

definition nykaa_is_product_page :: "tag \<Rightarrow> string \<Rightarrow> bool" where
  "nykaa_is_product_page soup html =
     (let add_buttons = find_all (\<lambda>t. named [''button'', ''a''] t \<and>
            string_is (\<lambda>s. s \<noteq> [] \<and> str_in ''add to'' (lower s)) t) soup in
      if add_buttons \<noteq> [] then True
      else
        (let price_elements = find_all (\<lambda>t. named [''div'', ''span''] t \<and>
               attr_is ''class'' (\<lambda>c. c \<noteq> [] \<and>
                 (str_in ''price'' (lower c) \<or> str_in ''mrp'' (lower c))) t) soup in
         if length price_elements > 1 then True
         else
           (let size_selectors = find_all (\<lambda>t. named [''div'', ''ul''] t \<and>
                  attr_is ''class'' (\<lambda>c. c \<noteq> [] \<and> str_in ''size'' (lower c)) t) soup in
            if size_selectors \<noteq> [] then True
            else if str_in (''itemprop='' @ quoted ''product'') html \<or>
                    str_in (quoted ''@type'' @ '':'' @ quoted ''Product'') html
              then True
            else False)))"

text \<open>\<open>_normalize_url\<close> returns \<open>None\<close> for an empty \<open>href\<close>, so a link of this class is a
  string or \<open>None\<close>.\<close>

definition nykaa_normalize_url :: "lib \<Rightarrow> string \<Rightarrow> string \<Rightarrow> error + string option" where
  "nykaa_normalize_url L base_url href =
     (if href = [] then Inr None
      else if startswith href ''//'' then Inr (Some (''https:'' @ href))
      else if startswith href ''/''
        then (case urlparse L base_url of
                Inl e \<Rightarrow> Inl e
              | Inr parsed_base \<Rightarrow>
                  Inr (Some (scheme parsed_base @ ''://'' @ netloc parsed_base @ href)))
      else if \<not> startswith href ''http''
        then (case urljoin L base_url href of Inl e \<Rightarrow> Inl e | Inr u \<Rightarrow> Inr (Some u))
      else Inr (Some href))"

text \<open>The values passed to \<open>_normalize_url\<close> for one product card, in the order of the
  calls: the \<open>href\<close> of the first anchor inside it, then its data attributes.\<close>

definition nykaa_element_hrefs :: "tag \<Rightarrow> string list" where
  "nykaa_element_hrefs element =
     (case find_tag (named [''a'']) element of
        None \<Rightarrow> []
      | Some link_tag \<Rightarrow>
          (case get_attr link_tag ''href'' of
             None \<Rightarrow> []
           | Some href \<Rightarrow> if href \<noteq> [] then [href] else []))
     @ concat (map (\<lambda>attr. case get_attr element attr of None \<Rightarrow> [] | Some href \<Rightarrow> [href])
                 [''data-url'', ''data-href'', ''data-product-url''])"

fun nykaa_normalize_all :: "lib \<Rightarrow> string \<Rightarrow> string list \<Rightarrow> error + string option list" where
  "nykaa_normalize_all L base_url [] = Inr []"
| "nykaa_normalize_all L base_url (href # hrefs) =
     (case nykaa_normalize_url L base_url href of
        Inl e \<Rightarrow> Inl e
      | Inr absolute_url \<Rightarrow>
          (case nykaa_normalize_all L base_url hrefs of
             Inl e \<Rightarrow> Inl e
           | Inr links \<Rightarrow> Inr (absolute_url # links)))"

definition nykaa_extract_links :: "lib \<Rightarrow> tag \<Rightarrow> string \<Rightarrow> error + string option list" where
  "nykaa_extract_links L soup base_url =
     (case crawler_extract_links L soup base_url of
        Inl e \<Rightarrow> Inl e
      | Inr links \<Rightarrow>
          (let product_elements = find_all (\<lambda>t. named [''div'', ''li'', ''article''] t \<and>
                 attr_is ''class'' (\<lambda>c. c \<noteq> [] \<and> list_ex (\<lambda>term. str_in term (lower c))
                   [''product-card'', ''plp-card'', ''product-tile'', ''product-box'',
                    ''product-item'']) t) soup in
           case nykaa_normalize_all L base_url (concat (map nykaa_element_hrefs product_elements)) of
             Inl e \<Rightarrow> Inl e
           | Inr card_links \<Rightarrow> Inr (map Some links @ card_links)))"

definition excluded_paths :: "string list" where
  "excluded_paths =
     [''/login'', ''/register'', ''/wishlist'', ''/cart'', ''/checkout'', ''/account'', ''/help'',
      ''/policy'', ''/about'', ''/terms'', ''/logout'', ''/customer-service'', ''/privacy'']"

definition priority_paths :: "string list" where
  "priority_paths =
     [''/category/'', ''/products/'', ''/fashion/'', ''/prod/'', ''/collection/'', ''/brands/'']"

text \<open>The two loops of \<open>NykaaCrawler.should_crawl\<close>, each returning from inside the loop
  at the first path found in the URL.  \<open>excluded_loop\<close> tells whether the first loop
  returned (the value it returns is \<open>False\<close>); \<open>priority_loop\<close> is the value returned by the
  second loop or, when it ends, by the \<open>return True\<close> after it.\<close>

fun excluded_loop :: "string list \<Rightarrow> string \<Rightarrow> bool" where
  "excluded_loop [] url = False"
| "excluded_loop (path # paths) url = (if str_in path url then True else excluded_loop paths url)"

fun priority_loop :: "string list \<Rightarrow> string \<Rightarrow> bool" where
  "priority_loop [] url = True"
| "priority_loop (path # paths) url = (if str_in path url then True else priority_loop paths url)"

definition nykaa_should_crawl :: "lib \<Rightarrow> string \<Rightarrow> string option \<Rightarrow> error + bool" where
  "nykaa_should_crawl L self_domain link =
     (case link of
        None \<Rightarrow> Inr False
      | Some url \<Rightarrow>
          if url = [] then Inr False
          else
            (case crawler_should_crawl L self_domain url of
               Inl e \<Rightarrow> Inl e
             | Inr False \<Rightarrow> Inr False
             | Inr True \<Rightarrow>
                 if excluded_loop excluded_paths url then Inr False
                 else Inr (priority_loop priority_paths url)))"

text \<open>The same method with the priority loop deleted.\<close>

definition nykaa_should_crawl_no_priority ::
  "lib \<Rightarrow> string \<Rightarrow> string option \<Rightarrow> error + bool" where
  "nykaa_should_crawl_no_priority L self_domain link =
     (case link of
        None \<Rightarrow> Inr False
      | Some url \<Rightarrow>
          if url = [] then Inr False
          else
            (case crawler_should_crawl L self_domain url of
               Inl e \<Rightarrow> Inl e
             | Inr False \<Rightarrow> Inr False
             | Inr True \<Rightarrow>
                 if excluded_loop excluded_paths url then Inr False
                 else Inr True))"

text \<open>The link loop of \<open>NykaaCrawler.process_url\<close>.  \<open>frontier.add(None)\<close> would raise
  \<open>AttributeError\<close> at \<open>url.rstrip\<close>.\<close>

fun nykaa_enqueue_links ::
  "lib \<Rightarrow> string option list \<Rightarrow> crawler \<Rightarrow> error option \<times> crawler" where
  "nykaa_enqueue_links L [] c = (None, c)"
| "nykaa_enqueue_links L (link # links) c =
     (case nykaa_should_crawl L (domain c) link of
        Inl e \<Rightarrow> (Some e, c)
      | Inr False \<Rightarrow> nykaa_enqueue_links L links c
      | Inr True \<Rightarrow>
          (case link of
             None \<Rightarrow> (Some AttributeError, c)
           | Some url \<Rightarrow> nykaa_enqueue_links L links (c\<lparr>frontier := add url (frontier c)\<rparr>)))"

definition nykaa_process_url_try ::
  "lib \<Rightarrow> fetch \<Rightarrow> string \<Rightarrow> crawler \<Rightarrow> error option \<times> crawler" where
  "nykaa_process_url_try L f url c =
     (case f of
        Inl e \<Rightarrow> (Some e, c)
      | Inr response \<Rightarrow>
          if status response \<noteq> 200 then (None, c)
          else
            (case text_of response of
               Inl e \<Rightarrow> (Some e, c)
             | Inr html \<Rightarrow>
                 (case BeautifulSoup L html of
                    Inl e \<Rightarrow> (Some e, c)
                  | Inr soup \<Rightarrow>
                      (let c1 = (if list_ex (\<lambda>pattern. re_search pattern url)
                                      nykaa_product_patterns
                                 then c\<lparr>product_urls := insert url (product_urls c)\<rparr> else c);
                           c2 = (if nykaa_is_product_page soup html
                                 then c1\<lparr>product_urls := insert url (product_urls c1)\<rparr> else c1)
                       in
                       case nykaa_extract_links L soup url of
                         Inl e \<Rightarrow> (Some e, c2)
                       | Inr links \<Rightarrow> nykaa_enqueue_links L links c2))))"

definition nykaa_process_url ::
  "lib \<Rightarrow> fetch \<Rightarrow> string \<Rightarrow> crawler \<Rightarrow> error option \<times> crawler" where
  "nykaa_process_url L f url c =
     (case nykaa_process_url_try L f url c of
        (None, c') \<Rightarrow> (None, c')
      | (Some e, c') \<Rightarrow> (None, c'))"

section \<open>Method dispatch and the workers\<close>

text \<open>\<open>self.process_url\<close>: the method of the class of the object.\<close>

definition process_url :: "lib \<Rightarrow> fetch \<Rightarrow> string \<Rightarrow> crawler \<Rightarrow> error option \<times> crawler" where
  "process_url L f url c =
     (case site c of
        Generic \<Rightarrow>
          crawler_process_url L (crawler_extract_links L) (crawler_should_crawl L (domain c))
            f url c
      | Virgio \<Rightarrow> virgio_process_url L f url c
      | Westside \<Rightarrow> westside_process_url L f url c
      | Tatacliq \<Rightarrow> tatacliq_process_url L f url c
      | Nykaa \<Rightarrow> nykaa_process_url L f url c)"

text \<open>
  A worker is a coroutine of one event loop: it runs alone from one \<open>await\<close> to the
  next.  Where it is suspended: not started yet, inside \<open>process_url\<close> awaiting the
  transport for a URL, in \<open>asyncio.sleep\<close>, returned, or left by an exception.
\<close>

datatype task = AtLoop | Fetching string | Sleeping | Returned | Failed error

text \<open>
  The \<open>while\<close> loop of \<open>Crawler.worker\<close> from its head to the call of \<open>process_url\<close>,
  which has no \<open>await\<close> in it: the emptiness test, the budget test, \<open>get\<close>, the visited
  test with its \<open>continue\<close>, and the marking.  The result is where the worker stops, the
  crawler, and the URLs on which the \<open>continue\<close> branch ran.
\<close>

function worker_loop :: "crawler \<Rightarrow> task \<times> crawler \<times> string list" where
  "worker_loop c =
     (if is_empty (frontier c) then (Returned, c, [])
      else if int (card (visited_urls c)) \<ge> max_urls c then (Returned, c, [])
      else
        (case get (frontier c) of
           Inl e \<Rightarrow> (Failed e, c, [])
         | Inr (url, F') \<Rightarrow>
             if url \<in> visited_urls c
             then (case worker_loop (c\<lparr>frontier := F'\<rparr>) of
                     (t, c', skips) \<Rightarrow> (t, c', url # skips))
             else (Fetching url,
                   c\<lparr>frontier := F', visited_urls := insert url (visited_urls c)\<rparr>, [])))"
  by pat_completeness auto
termination
  by (relation "measure (\<lambda>c. length (queue (frontier c)))")
     (auto simp: get_def split: list.splits)

declare worker_loop.simps [simp del]

text \<open>
  The state of one run of \<open>crawl\<close>: the crawler object that all workers share, where each
  worker is, and two logs kept for the proofs: the URLs \<open>process_url\<close> was called with, in
  the order of the calls, and the URLs skipped as already visited.
\<close>

record run_state =
  self :: crawler
  tasks :: "task list"
  calls :: "string list"
  skipped :: "string list"

definition enter_loop :: "nat \<Rightarrow> run_state \<Rightarrow> run_state" where
  "enter_loop i s =
     (case worker_loop (self s) of
        (t, c', skips) \<Rightarrow>
          s\<lparr>self := c',
            tasks := (tasks s)[i := t],
            calls := calls s @ (case t of Fetching url \<Rightarrow> [url] | _ \<Rightarrow> []),
            skipped := skipped s @ skips\<rparr>)"

text \<open>
  The event loop resumes worker \<open>i\<close>; \<open>f\<close> is what the transport delivers if the worker
  awaits it.  A worker inside \<open>process_url\<close> finishes that call and goes to sleep, or, if
  the call raised, logs and is back at the loop head at once.  A worker that is new or
  asleep runs the loop head.
\<close>

definition resume :: "lib \<Rightarrow> nat \<times> fetch \<Rightarrow> run_state \<Rightarrow> run_state" where
  "resume L ev s =
     (case ev of
        (i, f) \<Rightarrow>
          if i < length (tasks s) then
            (case tasks s ! i of
               AtLoop \<Rightarrow> enter_loop i s
             | Sleeping \<Rightarrow> enter_loop i s
             | Fetching url \<Rightarrow>
                 (case process_url L f url (self s) of
                    (None, c') \<Rightarrow> s\<lparr>self := c', tasks := (tasks s)[i := Sleeping]\<rparr>
                  | (Some e, c') \<Rightarrow> enter_loop i (s\<lparr>self := c'\<rparr>))
             | Returned \<Rightarrow> s
             | Failed e \<Rightarrow> s)
          else s)"

fun run :: "lib \<Rightarrow> (nat \<times> fetch) list \<Rightarrow> run_state \<Rightarrow> run_state" where
  "run L [] s = s"
| "run L (ev # evs) s = run L evs (resume L ev s)"

text \<open>\<open>Crawler.crawl\<close> adds the root URL and creates \<open>concurrency\<close> workers; \<open>schedule\<close>
  is the order in which the event loop resumes them, with what the transport delivers.\<close>

definition start :: "crawler \<Rightarrow> run_state" where
  "start c =
     \<lparr>self = c\<lparr>frontier := add (domain c) (frontier c)\<rparr>,
      tasks = replicate (nat (concurrency c)) AtLoop,
      calls = [],
      skipped = []\<rparr>"

definition crawl :: "lib \<Rightarrow> crawler \<Rightarrow> (nat \<times> fetch) list \<Rightarrow> run_state" where
  "crawl L c schedule = run L schedule (start c)"

section \<open>Invariants\<close>

text \<open>Every queued entry is normalised, queued once, and recorded as seen.\<close>

definition frontier_inv :: "url_frontier \<Rightarrow> bool" where
  "frontier_inv F \<longleftrightarrow>
     distinct (queue F) \<and> set (queue F) \<subseteq> seen_urls F \<and>
     map rstrip_slash (queue F) = queue F"

text \<open>The crawler between two steps of its workers: the frontier is in order, and the
  visited URLs are finitely many, have all been seen, and are not in the queue.\<close>

definition crawl_inv :: "crawler \<Rightarrow> bool" where
  "crawl_inv c \<longleftrightarrow>
     frontier_inv (frontier c) \<and> finite (visited_urls c) \<and>
     visited_urls c \<subseteq> seen_urls (frontier c) \<and>
     visited_urls c \<inter> set (queue (frontier c)) = {}"

text \<open>What a call of \<open>process_url\<close> may do to the crawler: add product URLs and call
  \<open>frontier.add\<close>, nothing else.\<close>

definition grows :: "crawler \<Rightarrow> crawler \<Rightarrow> bool" where
  "grows c c' \<longleftrightarrow>
     visited_urls c' = visited_urls c \<and> max_urls c' = max_urls c \<and>
     domain c' = domain c \<and> site c' = site c \<and>
     product_urls c \<subseteq> product_urls c' \<and>
     (\<exists>urls. frontier c' = adds urls (frontier c))"

text \<open>A run with budget \<open>b\<close> between two steps: no URL was passed to \<open>process_url\<close> twice,
  every such URL is visited, the \<open>continue\<close> branch never ran, the visited URLs are within
  the budget, and no worker was left by an exception.\<close>

definition run_inv :: "int \<Rightarrow> run_state \<Rightarrow> bool" where
  "run_inv b s \<longleftrightarrow>
     max_urls (self s) = b \<and> crawl_inv (self s) \<and> distinct (calls s) \<and>
     set (calls s) \<subseteq> visited_urls (self s) \<and>
     skipped s = [] \<and>
     int (card (visited_urls (self s))) \<le> max 0 (max_urls (self s)) \<and>
     list_all (\<lambda>t. case t of Failed e \<Rightarrow> False | _ \<Rightarrow> True) (tasks s)"






section \<open>Example inputs\<close>

text \<open>
  Concrete values for the parameters, used where a property is evaluated on an input.
  \<open>example_urlparse\<close> and \<open>example_urljoin\<close> do what \<open>urllib.parse\<close> does on the URLs used
  below: absolute URLs \<open>scheme://host/path?query#fragment\<close>, joined with an absolute or
  a root-relative reference; an unmatched square bracket is the \<open>ValueError\<close> of an
  invalid IPv6 host.  \<open>example_lib\<close> parses the example pages into the trees written next
  to them.
\<close>

fun after_scheme :: "string \<Rightarrow> string" where
  "after_scheme [] = []"
| "after_scheme (c # cs) = (if prefix ''://'' (c # cs) then drop 3 (c # cs) else after_scheme cs)"

definition example_urlparse :: "string \<Rightarrow> error + parse_result" where
  "example_urlparse u =
     (if CHR ''['' \<in> set u \<and> CHR '']'' \<notin> set u then Inl ValueError
      else Inr \<lparr>scheme = takeWhile (\<lambda>c. c \<noteq> CHR '':'') u,
                netloc = takeWhile (\<lambda>c. c \<notin> set ''/?#'') (after_scheme u),
                query = (let rest = dropWhile (\<lambda>c. c \<notin> set ''?#'') u in
                         if prefix ''?'' rest then takeWhile (\<lambda>c. c \<noteq> CHR ''#'') (drop 1 rest)
                         else []),
                fragment = drop 1 (dropWhile (\<lambda>c. c \<noteq> CHR ''#'') u)\<rparr>)"

definition example_urljoin :: "string \<Rightarrow> string \<Rightarrow> error + string" where
  "example_urljoin base href =
     (if CHR ''['' \<in> set href \<and> CHR '']'' \<notin> set href then Inl ValueError
      else if str_in ''://'' href then Inr href
      else case example_urlparse base of
             Inl e \<Rightarrow> Inl e
           | Inr b \<Rightarrow> Inr (scheme b @ ''://'' @ netloc b @ href))"

text \<open>The keys of \<open>parse_qs\<close>: the names of the \<open>name=value\<close> fields, separated by \<open>&\<close>,
  whose value is not blank.\<close>

fun split_amp :: "string \<Rightarrow> string list" where
  "split_amp [] = [[]]"
| "split_amp (c # cs) =
     (if c = CHR ''&'' then [] # split_amp cs
      else case split_amp cs of [] \<Rightarrow> [[c]] | piece # pieces \<Rightarrow> (c # piece) # pieces)"

definition example_parse_qs :: "string \<Rightarrow> string list" where
  "example_parse_qs q =
     map (takeWhile (\<lambda>c. c \<noteq> CHR ''=''))
       (filter (\<lambda>piece. drop 1 (dropWhile (\<lambda>c. c \<noteq> CHR ''='') piece) \<noteq> []) (split_amp q))"

definition html_home :: string where
  "html_home = ''<a href='' @ quoted ''/p/123'' @ ''>Shirt</a><button>Add to Cart</button>''"

definition soup_home :: tag where
  "soup_home = Tag ''[document]'' []
     [Child (Tag ''a'' [(''href'', ''/p/123'')] [NavigableString ''Shirt'']),
      Child (Tag ''button'' [] [NavigableString ''Add to Cart''])]"

definition html_plain :: string where
  "html_plain = ''<p>Sale</p>''"

definition soup_plain :: tag where
  "soup_plain = Tag ''[document]'' [] [Child (Tag ''p'' [] [NavigableString ''Sale''])]"

definition html_bad_anchor :: string where
  "html_bad_anchor = ''<a href='' @ quoted ''http://['' @ ''>x</a>''"

definition soup_bad_anchor :: tag where
  "soup_bad_anchor = Tag ''[document]'' []
     [Child (Tag ''a'' [(''href'', ''http://['')] [NavigableString ''x''])]"

definition html_bad_card :: string where
  "html_bad_card =
     ''<a href='' @ quoted ''/products/shirt'' @ ''>Shirt</a>'' @
     ''<div class='' @ quoted ''product-card'' @ '' data-url='' @ quoted ''//['' @ ''></div>''"

definition soup_bad_card :: tag where
  "soup_bad_card = Tag ''[document]'' []
     [Child (Tag ''a'' [(''href'', ''/products/shirt'')] [NavigableString ''Shirt'']),
      Child (Tag ''div'' [(''class'', ''product-card''), (''data-url'', ''//['')] [])]"

definition json_organization :: string where
  "json_organization = ''{'' @ quoted ''@type'' @ '':'' @ quoted ''Organization'' @ ''}''"

definition json_product :: string where
  "json_product = ''{'' @ quoted ''@type'' @ '':'' @ quoted ''Product'' @ ''}''"

definition html_two_blocks :: string where
  "html_two_blocks =
     ''<script type='' @ quoted ''application/ld+json'' @ ''>'' @ json_organization @ ''</script>'' @
     ''<script type='' @ quoted ''application/ld+json'' @ ''>'' @ json_product @ ''</script>''"

definition soup_two_blocks :: tag where
  "soup_two_blocks = Tag ''[document]'' []
     [Child (Tag ''script'' [(''type'', ''application/ld+json'')] [NavigableString json_organization]),
      Child (Tag ''script'' [(''type'', ''application/ld+json'')] [NavigableString json_product])]"

definition example_pages :: "(string \<times> tag) list" where
  "example_pages =
     [(html_home, soup_home), (html_plain, soup_plain), (html_bad_anchor, soup_bad_anchor),
      (html_bad_card, soup_bad_card), (html_two_blocks, soup_two_blocks)]"

definition example_lib :: lib where
  "example_lib =
     \<lparr>BeautifulSoup = (\<lambda>html. case map_of example_pages html of
                          None \<Rightarrow> Inl OtherError | Some soup \<Rightarrow> Inr soup),
      urlparse = example_urlparse,
      urljoin = example_urljoin,
      parse_qs = example_parse_qs\<rparr>"

definition ok :: "string \<Rightarrow> fetch" where
  "ok html = Inr \<lparr>status = 200, text_of = Inr html\<rparr>"


text \<open>A generic crawler with one worker, and its run when the root page is not found:
  the worker calls \<open>process_url\<close> with the root URL, then sleeps, then finds the frontier
  empty and returns.\<close>

definition shop :: crawler where
  "shop = new_crawler Generic ''https://shop.example/'' 1000 1"






section \<open>Properties of the frontier\<close>

lemma rstrip_slash_idem: "rstrip_slash (rstrip_slash s) = rstrip_slash s"
  by (simp add: rstrip_slash_def)

lemma frontier_inv_new: "frontier_inv new_frontier"
  by (simp add: frontier_inv_def new_frontier_def)

lemma frontier_inv_add: "frontier_inv F \<Longrightarrow> frontier_inv (add url F)"
  by (auto simp: frontier_inv_def add_def Let_def rstrip_slash_idem)

lemma frontier_inv_adds: "frontier_inv F \<Longrightarrow> frontier_inv (adds urls F)"
  by (induction urls arbitrary: F) (simp_all add: frontier_inv_add)

lemma frontier_inv_get: "frontier_inv F \<Longrightarrow> get F = Inr (u, F') \<Longrightarrow> frontier_inv F'"
  by (auto simp: frontier_inv_def get_def split: list.splits)

lemma adds_fresh:
  "distinct (map rstrip_slash urls) \<Longrightarrow> set (map rstrip_slash urls) \<inter> seen_urls F = {} \<Longrightarrow>
   adds urls F = F\<lparr>queue := queue F @ map rstrip_slash urls,
                   seen_urls := seen_urls F \<union> set (map rstrip_slash urls)\<rparr>"
proof (induction urls arbitrary: F)
  case Nil
  then show ?case by simp
next
  case (Cons url urls)
  let ?n = "rstrip_slash url"
  from Cons.prems have fresh: "?n \<notin> seen_urls F" by auto
  then have step: "add url F = F\<lparr>queue := queue F @ [?n], seen_urls := insert ?n (seen_urls F)\<rparr>"
    by (simp add: add_def Let_def)
  from Cons.prems have d: "distinct (map rstrip_slash urls)"
    and n: "?n \<notin> set (map rstrip_slash urls)" by auto
  from Cons.prems n have "set (map rstrip_slash urls) \<inter> seen_urls (add url F) = {}"
    by (auto simp: step)
  from Cons.IH [OF d this] show ?case
    by (simp add: step)
qed

lemma gets_queue:
  "queue F = q \<Longrightarrow> gets (length q) F = Inr (q, F\<lparr>queue := []\<rparr>)"
proof (induction q arbitrary: F)
  case Nil
  then show ?case by simp
next
  case (Cons u q)
  then have g: "get F = Inr (u, F\<lparr>queue := q\<rparr>)"
    by (simp add: get_def)
  have "gets (length q) (F\<lparr>queue := q\<rparr>) = Inr (q, F\<lparr>queue := q\<rparr>\<lparr>queue := []\<rparr>)"
    by (rule Cons.IH) simp
  with g show ?case by simp
qed

text \<open>
  Claim C2.  Starting from the empty frontier, after any sequence of \<open>add\<close> calls no two
  entries of the queue have the same normalised URL; adding \<open>https://x/a/\<close> and then
  \<open>https://x/a\<close> leaves the single entry \<open>https://x/a\<close>.
\<close>

theorem frontier_no_duplicates:
  "distinct (map rstrip_slash (queue (adds urls new_frontier))) \<and>
   queue (adds [''https://x/a/'', ''https://x/a''] new_frontier) = [''https://x/a'']"
proof
  have "frontier_inv (adds urls new_frontier)"
    by (rule frontier_inv_adds [OF frontier_inv_new])
  then show "distinct (map rstrip_slash (queue (adds urls new_frontier)))"
    by (simp add: frontier_inv_def)
next
  show "queue (adds [''https://x/a/'', ''https://x/a''] new_frontier) = [''https://x/a'']"
    by (simp add: add_def Let_def new_frontier_def rstrip_slash_def)
qed

theorem frontier_no_duplicates_witness:
  "distinct (map rstrip_slash
     (queue (adds [''https://x/a/'', ''https://x/b'', ''https://x/a//'', ''https://x/b'']
        new_frontier)))"
  using frontier_no_duplicates [of "[''https://x/a/'', ''https://x/b'', ''https://x/a//'', ''https://x/b'']"]
  by simp

text \<open>
  Claim C7.  The frontier is first-in first-out: after \<open>add\<close> calls whose normalised URLs
  are pairwise different, as many \<open>get\<close> calls return the normalised URLs in the order of
  the \<open>add\<close> calls, and leave the frontier empty.
\<close>

theorem frontier_fifo:
  assumes "distinct (map rstrip_slash urls)"
  shows "\<exists>F'. gets (length urls) (adds urls new_frontier) = Inr (map rstrip_slash urls, F') \<and>
               is_empty F'"
proof -
  have "adds urls new_frontier =
          new_frontier\<lparr>queue := queue new_frontier @ map rstrip_slash urls,
                       seen_urls := seen_urls new_frontier \<union> set (map rstrip_slash urls)\<rparr>"
    by (rule adds_fresh [OF assms]) (simp add: new_frontier_def)
  then have q: "queue (adds urls new_frontier) = map rstrip_slash urls"
    by (simp add: new_frontier_def)
  have "gets (length (map rstrip_slash urls)) (adds urls new_frontier) =
          Inr (map rstrip_slash urls, (adds urls new_frontier)\<lparr>queue := []\<rparr>)"
    by (rule gets_queue [OF q])
  then show ?thesis
    by (auto simp: is_empty_def)
qed

theorem frontier_fifo_witness:
  "distinct (map rstrip_slash [''https://x/b/'', ''https://x/a'', ''https://x/c//'']) \<and>
   (\<exists>F'. gets 3 (adds [''https://x/b/'', ''https://x/a'', ''https://x/c//''] new_frontier) =
            Inr ([''https://x/b'', ''https://x/a'', ''https://x/c''], F') \<and> is_empty F')"
proof -
  have d: "distinct (map rstrip_slash [''https://x/b/'', ''https://x/a'', ''https://x/c//''])"
    by (simp add: rstrip_slash_def)
  from frontier_fifo [OF d] d show ?thesis
    by (simp add: rstrip_slash_def eval_nat_numeral)
qed

section \<open>Properties of a crawl run\<close>


lemma adds_append: "adds (us @ vs) F = adds vs (adds us F)"
  by (induction us arbitrary: F) simp_all

lemma grows_refl: "grows c c"
  unfolding grows_def by (auto intro: exI [of _ "[]"])

lemma grows_trans:
  assumes "grows a b" and "grows b c"
  shows "grows a c"
proof -
  from assms(1) obtain us where us: "frontier b = adds us (frontier a)"
    by (auto simp: grows_def)
  from assms(2) obtain vs where vs: "frontier c = adds vs (frontier b)"
    by (auto simp: grows_def)
  from us vs have "frontier c = adds (us @ vs) (frontier a)"
    by (simp add: adds_append)
  then have "\<exists>urls. frontier c = adds urls (frontier a)" ..
  moreover from assms have "product_urls a \<subseteq> product_urls c"
    by (auto simp: grows_def)
  ultimately show ?thesis using assms by (simp add: grows_def)
qed

lemma grows_product: "grows c (c\<lparr>product_urls := insert url (product_urls c)\<rparr>)"
  unfolding grows_def by (auto intro: exI [of _ "[]"])

lemma grows_add: "grows c (c\<lparr>frontier := add url (frontier c)\<rparr>)"
  unfolding grows_def by (auto intro: exI [of _ "[url]"])

lemma grows_enqueue_links: "grows c (snd (enqueue_links should links c))"
proof (induction links arbitrary: c)
  case Nil
  show ?case by (simp add: grows_refl)
next
  case (Cons link links)
  show ?case
  proof (cases "should link")
    case (Inl e)
    then show ?thesis by (simp add: grows_refl)
  next
    case (Inr b)
    let ?c1 = "if b then c\<lparr>frontier := add link (frontier c)\<rparr> else c"
    have "grows c ?c1" by (simp add: grows_refl grows_add)
    moreover have "grows ?c1 (snd (enqueue_links should links ?c1))" by (rule Cons.IH)
    ultimately show ?thesis using Inr by (auto intro: grows_trans)
  qed
qed

lemma grows_nykaa_enqueue_links: "grows c (snd (nykaa_enqueue_links L links c))"
proof (induction links arbitrary: c)
  case Nil
  show ?case by (simp add: grows_refl)
next
  case (Cons link links)
  show ?case
  proof (cases "nykaa_should_crawl L (domain c) link")
    case (Inl e)
    then show ?thesis by (simp add: grows_refl)
  next
    case (Inr b)
    show ?thesis
    proof (cases b)
      case False
      with Inr Cons.IH [of c] show ?thesis by simp
    next
      case True
      show ?thesis
      proof (cases link)
        case None
        with Inr True show ?thesis by (simp add: grows_refl)
      next
        case (Some url)
        have "grows c (c\<lparr>frontier := add url (frontier c)\<rparr>)" by (rule grows_add)
        moreover have "grows (c\<lparr>frontier := add url (frontier c)\<rparr>)
           (snd (nykaa_enqueue_links L links (c\<lparr>frontier := add url (frontier c)\<rparr>)))"
          by (rule Cons.IH)
        ultimately show ?thesis using Inr True Some by (auto intro: grows_trans)
      qed
    qed
  qed
qed

lemma grows_mark:
  "grows c c1 \<Longrightarrow> grows c (c1\<lparr>product_urls := insert url (product_urls c1)\<rparr>)"
  by (rule grows_trans[OF _ grows_product])

lemma grows_crawler_try:
  "grows c (snd (crawler_process_url_try L extract should f url c))"
proof -
  have a: "grows c (snd (enqueue_links should links c1))" if "grows c c1" for links c1
    using that grows_enqueue_links by (rule grows_trans)
  show ?thesis
    unfolding crawler_process_url_try_def Let_def
    by (auto split: sum.splits simp: grows_refl grows_product intro!: a)
qed

lemma grows_crawler_process_url:
  "grows c (snd (crawler_process_url L extract should f url c))"
  using grows_crawler_try [of c L "extract" "should" f url]
  unfolding crawler_process_url_def
  by (auto split: prod.splits option.splits error.splits)

lemma grows_virgio: "grows c (snd (virgio_process_url L f url c))"
  using grows_crawler_process_url
    [of c L "crawler_extract_links L" "crawler_should_crawl L (domain c)" f url]
  unfolding virgio_process_url_def
  by (auto split: prod.splits option.splits intro: grows_mark)

lemma grows_westside: "grows c (snd (westside_process_url L f url c))"
  using grows_crawler_process_url
    [of c L "westside_extract_links L (domain c)" "westside_should_crawl L (domain c)" f url]
  unfolding westside_process_url_def
  by (auto split: prod.splits option.splits intro: grows_mark)

lemma grows_tatacliq_try: "grows c (snd (tatacliq_process_url_try L f url c))"
proof -
  have a: "grows c (snd (enqueue_links should links c1))" if "grows c c1" for links c1 should
    using that grows_enqueue_links by (rule grows_trans)
  show ?thesis
    unfolding tatacliq_process_url_try_def Let_def
    by (auto split: sum.splits simp: grows_refl grows_product intro!: a grows_mark)
qed

lemma grows_tatacliq: "grows c (snd (tatacliq_process_url L f url c))"
  using grows_tatacliq_try [of c L f url]
  unfolding tatacliq_process_url_def
  by (auto split: prod.splits option.splits)

lemma grows_nykaa_try: "grows c (snd (nykaa_process_url_try L f url c))"
proof -
  have a: "grows c (snd (nykaa_enqueue_links L links c1))" if "grows c c1" for links c1
    using that grows_nykaa_enqueue_links by (rule grows_trans)
  show ?thesis
    unfolding nykaa_process_url_try_def Let_def
    by (auto split: sum.splits simp: grows_refl grows_product intro!: a grows_mark)
qed

lemma grows_nykaa: "grows c (snd (nykaa_process_url L f url c))"
  using grows_nykaa_try [of c L f url]
  unfolding nykaa_process_url_def
  by (auto split: prod.splits option.splits)

lemma grows_process_url: "grows c (snd (process_url L f url c))"
  unfolding process_url_def
  by (simp add: grows_crawler_process_url grows_virgio grows_westside grows_tatacliq
        grows_nykaa split: site.splits)


lemma crawl_inv_add:
  assumes "crawl_inv c"
  shows "crawl_inv (c\<lparr>frontier := add url (frontier c)\<rparr>)"
proof -
  from assms have "frontier_inv (add url (frontier c))"
    by (simp add: crawl_inv_def frontier_inv_add)
  moreover from assms have "visited_urls c \<subseteq> seen_urls (add url (frontier c))"
    by (auto simp: crawl_inv_def add_def Let_def)
  moreover from assms have "visited_urls c \<inter> set (queue (add url (frontier c))) = {}"
    by (auto simp: crawl_inv_def add_def Let_def)
  ultimately show ?thesis using assms by (simp add: crawl_inv_def)
qed

lemma crawl_inv_adds:
  "crawl_inv c \<Longrightarrow> crawl_inv (c\<lparr>frontier := adds urls (frontier c)\<rparr>)"
proof (induction urls arbitrary: c)
  case Nil
  then show ?case by simp
next
  case (Cons url urls)
  from Cons.IH [OF crawl_inv_add [OF Cons.prems, of url]] show ?case by simp
qed

lemma crawl_inv_grows:
  assumes "crawl_inv c" and "grows c c'"
  shows "crawl_inv c'"
proof -
  from assms(2) obtain urls where f: "frontier c' = adds urls (frontier c)"
    and v: "visited_urls c' = visited_urls c"
    by (auto simp: grows_def)
  from crawl_inv_adds [OF assms(1), of urls] f v show ?thesis
    by (simp add: crawl_inv_def)
qed

text \<open>The loop head under the invariant: the URL taken from the queue is never a visited
  one, so the loop stops at its first iteration.\<close>

lemma worker_loop_inv:
  assumes "crawl_inv c" and "worker_loop c = (t, c', skips)"
  shows "skips = [] \<and> crawl_inv c' \<and> max_urls c' = max_urls c \<and>
         (t = Returned \<and> c' = c \<and>
            (is_empty (frontier c) \<or> max_urls c \<le> int (card (visited_urls c))) \<or>
          (\<exists>url. t = Fetching url \<and> url \<notin> visited_urls c \<and>
             visited_urls c' = insert url (visited_urls c) \<and>
             int (card (visited_urls c)) < max_urls c))"
proof (cases "is_empty (frontier c) \<or> max_urls c \<le> int (card (visited_urls c))")
  case True
  then have "worker_loop c = (Returned, c, [])"
    by (subst worker_loop.simps) auto
  with assms True show ?thesis by auto
next
  case False
  then obtain url q where q: "queue (frontier c) = url # q"
    by (cases "queue (frontier c)") (auto simp: is_empty_def)
  with assms(1) have fresh: "url \<notin> visited_urls c" and nq: "url \<notin> set q"
    and dq: "distinct q"
    by (auto simp: crawl_inv_def frontier_inv_def)
  from q have g: "get (frontier c) = Inr (url, (frontier c)\<lparr>queue := q\<rparr>)"
    by (simp add: get_def)
  from False fresh g
  have "worker_loop c = (Fetching url,
      c\<lparr>frontier := (frontier c)\<lparr>queue := q\<rparr>, visited_urls := insert url (visited_urls c)\<rparr>, [])"
    by (subst worker_loop.simps) auto
  with assms(2)
  have res: "t = Fetching url" "skips = []"
    "c' = c\<lparr>frontier := (frontier c)\<lparr>queue := q\<rparr>, visited_urls := insert url (visited_urls c)\<rparr>"
    by auto
  from assms(1) q nq dq have "crawl_inv c'"
    unfolding res crawl_inv_def frontier_inv_def by auto
  with res False fresh show ?thesis by auto
qed

lemma list_all_update: "list_all P xs \<Longrightarrow> P x \<Longrightarrow> list_all P (xs[i := x])"
  by (induction xs arbitrary: i) (auto split: nat.splits)

lemma run_inv_enter_loop:
  assumes "run_inv b s"
  shows "run_inv b (enter_loop i s)"
proof -
  obtain t c' skips where w: "worker_loop (self s) = (t, c', skips)"
    by (cases "worker_loop (self s)") auto
  from assms have ci: "crawl_inv (self s)" by (simp add: run_inv_def)
  note wl = worker_loop_inv [OF ci w]
  from ci have fin: "finite (visited_urls (self s))" by (simp add: crawl_inv_def)
  from wl have "t = Returned \<and> c' = self s \<or>
      (\<exists>url. t = Fetching url \<and> url \<notin> visited_urls (self s) \<and>
         visited_urls c' = insert url (visited_urls (self s)) \<and>
         int (card (visited_urls (self s))) < max_urls (self s))" by auto
  then show ?thesis
  proof
    assume "t = Returned \<and> c' = self s"
    with assms w wl show ?thesis
      by (auto simp: run_inv_def enter_loop_def intro: list_all_update)
  next
    assume "\<exists>url. t = Fetching url \<and> url \<notin> visited_urls (self s) \<and>
         visited_urls c' = insert url (visited_urls (self s)) \<and>
         int (card (visited_urls (self s))) < max_urls (self s)"
    then obtain url where u: "t = Fetching url" "url \<notin> visited_urls (self s)"
      "visited_urls c' = insert url (visited_urls (self s))"
      "int (card (visited_urls (self s))) < max_urls (self s)" by auto
    from u fin have "int (card (visited_urls c')) \<le> max 0 (max_urls c')"
      using wl by simp
    moreover from assms u have "distinct (calls s @ [url])" "set (calls s @ [url]) \<subseteq> visited_urls c'"
      by (auto simp: run_inv_def)
    ultimately show ?thesis using assms w wl u
      by (auto simp: run_inv_def enter_loop_def intro: list_all_update)
  qed
qed

lemma run_inv_self:
  assumes "run_inv b s" and "grows (self s) c'"
  shows "run_inv b (s\<lparr>self := c'\<rparr>)"
  using assms crawl_inv_grows [of "self s" c']
  by (auto simp: run_inv_def grows_def)

lemma run_inv_resume:
  assumes "run_inv b s"
  shows "run_inv b (resume L ev s)"
proof -
  obtain i f where ev: "ev = (i, f)" by (cases ev)
  show ?thesis
  proof (cases "i < length (tasks s)")
    case False
    with assms ev show ?thesis by (simp add: resume_def)
  next
    case True
    show ?thesis
    proof (cases "tasks s ! i")
      case AtLoop
      with True ev run_inv_enter_loop [OF assms] show ?thesis by (simp add: resume_def)
    next
      case Sleeping
      with True ev run_inv_enter_loop [OF assms] show ?thesis by (simp add: resume_def)
    next
      case Returned
      with True ev assms show ?thesis by (simp add: resume_def)
    next
      case (Failed e)
      with True ev assms show ?thesis by (simp add: resume_def)
    next
      case (Fetching url)
      obtain r c' where p: "process_url L f url (self s) = (r, c')"
        by (cases "process_url L f url (self s)")
      with grows_process_url [of "self s" L f url] have g: "grows (self s) c'" by simp
      note inv' = run_inv_self [OF assms g]
      show ?thesis
      proof (cases r)
        case None
        from inv' have "run_inv b (s\<lparr>self := c', tasks := (tasks s)[i := Sleeping]\<rparr>)"
          by (auto simp: run_inv_def intro: list_all_update)
        with True ev Fetching p None show ?thesis by (simp add: resume_def)
      next
        case (Some e)
        with True ev Fetching p run_inv_enter_loop [OF inv'] show ?thesis
          by (simp add: resume_def)
      qed
    qed
  qed
qed

lemma run_inv_run: "run_inv b s \<Longrightarrow> run_inv b (run L evs s)"
  by (induction evs arbitrary: s) (simp_all add: run_inv_resume)

lemma run_inv_start: "run_inv budget (start (new_crawler cls root budget workers))"
  by (simp add: run_inv_def start_def new_crawler_def crawl_inv_def frontier_inv_def
        add_def Let_def new_frontier_def rstrip_slash_idem list_all_iff)

lemma run_inv_crawl: "run_inv budget (crawl L (new_crawler cls root budget workers) schedule)"
  unfolding crawl_def by (rule run_inv_run [OF run_inv_start])

lemma distinct_count_le_1: "distinct xs \<Longrightarrow> count_list xs x \<le> 1"
  by (induction xs) auto

text \<open>
  Claim C3.  In a run of \<open>crawl\<close> on a new crawler, under every schedule of the workers
  and whatever the transport delivers, \<open>process_url\<close> is called at most once with each URL.
\<close>

theorem fetched_at_most_once:
  "count_list (calls (crawl L (new_crawler cls root budget workers) schedule)) url \<le> 1"
proof -
  have "distinct (calls (crawl L (new_crawler cls root budget workers) schedule))"
    using run_inv_crawl [of budget L cls root workers schedule]
    unfolding run_inv_def by blast
  then show ?thesis by (rule distinct_count_le_1)
qed

text \<open>
  Claim C4.  With a budget \<open>max_urls\<close> that is not negative, the number of visited URLs
  is at most the budget after every step of a run.
\<close>

theorem visited_within_budget:
  assumes "0 \<le> budget"
  shows "int (card (visited_urls (self (crawl L (new_crawler cls root budget workers) schedule))))
           \<le> budget"
proof -
  let ?c = "self (crawl L (new_crawler cls root budget workers) schedule)"
  have "max_urls ?c = budget \<and> int (card (visited_urls ?c)) \<le> max 0 (max_urls ?c)"
    using run_inv_crawl [of budget L cls root workers schedule]
    unfolding run_inv_def by blast
  then have "int (card (visited_urls ?c)) \<le> max 0 budget"
    by (elim conjE) (erule subst)
  with assms show ?thesis by (simp add: max_def)
qed

text \<open>A run with budget 1 and two workers: the first worker fetches the root page, whose
  link is queued; woken again it finds the budget used up and returns, the link still
  queued.\<close>

theorem visited_within_budget_witness:
  "(0::int) \<le> 1 \<and>
   int (card (visited_urls (self (crawl example_lib
      (new_crawler Generic ''https://shop.example/'' 1 2)
      [(0, ok html_home), (1, ok html_home), (0, ok html_home), (0, ok html_home)])))) \<le> 1 \<and>
   calls (crawl example_lib (new_crawler Generic ''https://shop.example/'' 1 2)
      [(0, ok html_home), (1, ok html_home), (0, ok html_home), (0, ok html_home)]) =
     [''https://shop.example''] \<and>
   queue (frontier (self (crawl example_lib (new_crawler Generic ''https://shop.example/'' 1 2)
      [(0, ok html_home), (1, ok html_home), (0, ok html_home), (0, ok html_home)]))) =
     [''https://shop.example/p/123''] \<and>
   tasks (crawl example_lib (new_crawler Generic ''https://shop.example/'' 1 2)
      [(0, ok html_home), (1, ok html_home), (0, ok html_home), (0, ok html_home)]) =
     [Returned, Returned]"
proof -
  have h: "(0::int) \<le> 1" by simp
  have run: "calls (crawl example_lib (new_crawler Generic ''https://shop.example/'' 1 2)
      [(0, ok html_home), (1, ok html_home), (0, ok html_home), (0, ok html_home)]) =
     [''https://shop.example''] \<and>
   queue (frontier (self (crawl example_lib (new_crawler Generic ''https://shop.example/'' 1 2)
      [(0, ok html_home), (1, ok html_home), (0, ok html_home), (0, ok html_home)]))) =
     [''https://shop.example/p/123''] \<and>
   tasks (crawl example_lib (new_crawler Generic ''https://shop.example/'' 1 2)
      [(0, ok html_home), (1, ok html_home), (0, ok html_home), (0, ok html_home)]) =
     [Returned, Returned]"
    by code_simp
  from visited_within_budget [OF h, of example_lib Generic "''https://shop.example/''" 2
      "[(0, ok html_home), (1, ok html_home), (0, ok html_home), (0, ok html_home)]"] h run
  show ?thesis by blast
qed

text \<open>
  Claim C10.  In a run of \<open>crawl\<close> on a new crawler the already-visited branch of the
  worker never runs: no URL is ever skipped, because at every step no queued URL is a
  visited one.
\<close>

theorem visited_branch_dead:
  "skipped (crawl L (new_crawler cls root budget workers) schedule) = [] \<and>
   visited_urls (self (crawl L (new_crawler cls root budget workers) schedule)) \<inter>
     set (queue (frontier (self (crawl L (new_crawler cls root budget workers) schedule)))) = {}"
  using run_inv_crawl [of budget L cls root workers schedule]
  unfolding run_inv_def crawl_inv_def by blast

section \<open>Properties of the classifier and of the overrides\<close>

lemma str_in_sublist: "str_in p s = sublist p s"
proof (induction s)
  case Nil
  show ?case by simp
next
  case (Cons c cs)
  show ?case
  proof (cases p)
    case Nil
    then show ?thesis by simp
  next
    case (Cons x xs)
    with Cons.IH show ?thesis by (simp add: sublist_Cons_right)
  qed
qed

lemma str_in_append_left: "str_in (p @ q) s \<Longrightarrow> str_in p s"
  unfolding str_in_sublist by (auto simp: sublist_def)

lemma str_in_append_right:
  assumes "str_in (p @ q) s"
  shows "str_in q s"
proof -
  from assms obtain ps ss where "s = ps @ (p @ q) @ ss"
    by (auto simp: str_in_sublist sublist_def)
  then have "s = (ps @ p) @ q @ ss" by simp
  then show ?thesis
    unfolding str_in_sublist sublist_def by blast
qed

text \<open>The classifier is the disjunction of its three signals, unless parsing the URL
  raises before the answer is known.\<close>

lemma is_product_page_or:
  "is_product_page L url html soup =
     (case check_url_pattern L url of
        Inl e \<Rightarrow> Inl e
      | Inr b \<Rightarrow> Inr (b \<or> check_page_content html soup \<or> check_metadata soup))"
  by (simp add: is_product_page_def split: sum.splits bool.splits)

text \<open>The metadata signal is true when the first JSON-LD script of the document holds
  the type declaration.\<close>

lemma first_json_ld_block:
  assumes "find_tag (\<lambda>t. named [''script''] t \<and>
             attr_is ''type'' (\<lambda>v. v = ''application/ld+json'') t) soup = Some sc"
    and "tag_string sc = Some s"
    and "str_in (quoted ''@type'' @ '':'' @ quoted ''Product'') s"
  shows "check_metadata soup"
proof -
  from assms(3) have a: "str_in (quoted ''@type'') s"
    by (rule str_in_append_left)
  from assms(3) have "str_in ('':'' @ quoted ''Product'') s"
    by (rule str_in_append_right)
  then have b: "str_in (quoted ''Product'') s"
    by (rule str_in_append_right)
  from a have "s \<noteq> []" by (auto simp: quoted_def)
  with assms(1,2) a b show ?thesis
    by (simp add: check_metadata_def)
qed

text \<open>
  Claim C5.  The classifier is a disjunction, but the metadata signal reads the first
  JSON-LD script only: a page whose second JSON-LD script declares the type \<open>Product\<close>,
  with no other signal, is classified as not a product.
\<close>

theorem second_json_ld_block_ignored:
  "find_all (\<lambda>t. named [''script''] t \<and>
       attr_is ''type'' (\<lambda>v. v = ''application/ld+json'') t \<and>
       string_is (str_in (quoted ''@type'' @ '':'' @ quoted ''Product'')) t) soup_two_blocks \<noteq> [] \<and>
   is_product_page example_lib ''https://shop.example/about'' html_two_blocks soup_two_blocks =
     Inr False"
  by code_simp

lemma priority_loop_True: "priority_loop paths url = True"
  by (induction paths) simp_all

lemma excluded_loop_iff: "excluded_loop paths url \<longleftrightarrow> (\<exists>path \<in> set paths. str_in path url)"
  by (induction paths) auto

text \<open>
  Claim C6, as the code has it.  A URL that contains an excluded path and a priority path
  is never admitted by \<open>NykaaCrawler.should_crawl\<close>: the exclusion loop runs before the
  priority loop, and the method returns \<open>False\<close> whenever the inherited check returns.
  The inherited check runs first of all and parses the URL; when \<open>urlparse\<close> raises, that
  exception leaves the method and nothing is returned.
\<close>

theorem exclusion_precedence:
  assumes "excluded \<in> set excluded_paths" and "str_in excluded url"
    and "priority \<in> set priority_paths" and "str_in priority url"
  shows "nykaa_should_crawl L self_domain (Some url) =
           (case crawler_should_crawl L self_domain url of
              Inl e \<Rightarrow> Inl e
            | Inr b \<Rightarrow> Inr False) \<and>
         nykaa_should_crawl L self_domain (Some url) \<noteq> Inr True"
proof -
  from assms(3) have "priority \<noteq> []"
    by (auto simp: priority_paths_def)
  with assms(4) have "url \<noteq> []"
    by (cases url) auto
  moreover from assms(1,2) have "excluded_loop excluded_paths url"
    by (auto simp: excluded_loop_iff)
  ultimately show ?thesis
    by (simp add: nykaa_should_crawl_def split: sum.splits bool.splits)
qed

theorem exclusion_precedence_witness:
  "''/cart'' \<in> set excluded_paths \<and>
   str_in ''/cart'' ''https://nykaafashion.com/products/cart/'' \<and>
   ''/products/'' \<in> set priority_paths \<and>
   str_in ''/products/'' ''https://nykaafashion.com/products/cart/'' \<and>
   crawler_should_crawl example_lib ''https://nykaafashion.com/''
     ''https://nykaafashion.com/products/cart/'' = Inr True \<and>
   nykaa_should_crawl example_lib ''https://nykaafashion.com/''
     (Some ''https://nykaafashion.com/products/cart/'') = Inr False"
proof -
  have h1: "''/cart'' \<in> set excluded_paths" by (simp add: excluded_paths_def)
  have h2: "str_in ''/cart'' ''https://nykaafashion.com/products/cart/''" by simp
  have h3: "''/products/'' \<in> set priority_paths" by (simp add: priority_paths_def)
  have h4: "str_in ''/products/'' ''https://nykaafashion.com/products/cart/''" by simp
  have g: "crawler_should_crawl example_lib ''https://nykaafashion.com/''
     ''https://nykaafashion.com/products/cart/'' = Inr True"
    by code_simp
  from exclusion_precedence [OF h1 h2 h3 h4, of example_lib "''https://nykaafashion.com/''"] g
  have "nykaa_should_crawl example_lib ''https://nykaafashion.com/''
     (Some ''https://nykaafashion.com/products/cart/'') = Inr False"
    by simp
  with h1 h2 h3 h4 g show ?thesis by blast
qed

text \<open>
  The claim as stated, that the method returns \<open>False\<close> for every such URL, fails on a URL
  that \<open>urlparse\<close> rejects.  The Nykaa link extraction turns the data attribute
  \<open>//[/products/cart/\<close> of a product card into the link \<open>https://[/products/cart/\<close> without
  parsing it; the link contains \<open>/products/\<close> and \<open>/cart\<close>, and \<open>should_crawl\<close> raises
  \<open>ValueError\<close> on it.
\<close>

theorem malformed_url_raises:
  "''/cart'' \<in> set excluded_paths \<and>
   str_in ''/cart'' ''https://[/products/cart/'' \<and>
   ''/products/'' \<in> set priority_paths \<and>
   str_in ''/products/'' ''https://[/products/cart/'' \<and>
   nykaa_normalize_url example_lib ''https://nykaafashion.com'' ''//[/products/cart/'' =
     Inr (Some ''https://[/products/cart/'') \<and>
   nykaa_should_crawl example_lib ''https://nykaafashion.com/''
     (Some ''https://[/products/cart/'') = Inl ValueError \<and>
   nykaa_should_crawl example_lib ''https://nykaafashion.com/''
     (Some ''https://[/products/cart/'') \<noteq> Inr False"
  by code_simp

text \<open>
  Claim C9.  \<open>NykaaCrawler.should_crawl\<close> returns, on every input, what the same method
  without its priority loop returns.
\<close>

theorem priority_loop_no_effect:
  "nykaa_should_crawl L self_domain link = nykaa_should_crawl_no_priority L self_domain link"
  unfolding nykaa_should_crawl_def nykaa_should_crawl_no_priority_def priority_loop_True ..






text \<open>
  Claim C1.  The overrides of the Nykaa and TataCliq classes do not run the generic
  classifier: a page fetched with status 200 whose URL the generic classifier accepts
  (it contains \<open>/shop/\<close>) is not added to the product URLs by either of them.
\<close>

theorem override_drops_generic_positive:
  "is_product_page example_lib ''https://nykaafashion.com/shop/sale'' html_plain soup_plain =
     Inr True \<and>
   ''https://nykaafashion.com/shop/sale'' \<notin> product_urls (snd (process_url example_lib
      (ok html_plain) ''https://nykaafashion.com/shop/sale''
      (new_crawler Nykaa ''https://nykaafashion.com/'' 1000 5))) \<and>
   is_product_page example_lib ''https://www.tatacliq.com/shop/sale'' html_plain soup_plain =
     Inr True \<and>
   ''https://www.tatacliq.com/shop/sale'' \<notin> product_urls (snd (process_url example_lib
      (ok html_plain) ''https://www.tatacliq.com/shop/sale''
      (new_crawler Tatacliq ''https://www.tatacliq.com/'' 1000 5)))"
  by code_simp

section \<open>Failures of a single URL\<close>

























end
